theory Spec2Isabelle
  imports Main "HOL-Library.AList" "HOL-Library.Sublist"
begin

section \<open>JavaScript values as the application sees them\<close>

text \<open>
  The history held by \<^verbatim>\<open>App.tsx\<close> is declared \<^verbatim>\<open>CorpusCard[]\<close>, but two of
  its sources are untyped at run time: \<^verbatim>\<open>JSON.parse(saved)\<close> on mount and
  \<^verbatim>\<open>JSON.parse(event.target?.result)\<close> on import, whose elements the import filter
  types \<^verbatim>\<open>any\<close>. Cards and candidates are therefore JavaScript values.

  The number representation is the type parameter \<open>'n\<close>: the code only tests a number
  for truthiness (its zero is falsy; \<^verbatim>\<open>JSON.parse\<close> and \<^verbatim>\<open>Date.now()\<close> never
  give NaN) and for equality. An object is its list of own properties, in property order;
  \<^verbatim>\<open>JSON.parse\<close> and the object spread keep the keys unique.
\<close>

datatype 'n jsval =
    JUndefined
  | JNull
  | JBool bool
  | JNum 'n
  | JStr string
  | JArr "'n jsval list"
  | JObj "(string \<times> 'n jsval) list"

text \<open>JavaScript's \<^verbatim>\<open>ToBoolean\<close>, as \<^verbatim>\<open>&&\<close>, \<^verbatim>\<open>!\<close> and \<^verbatim>\<open>if\<close> apply it.\<close>

fun truthy :: "'n::zero jsval \<Rightarrow> bool" where
  "truthy JUndefined = False"
| "truthy JNull = False"
| "truthy (JBool b) = b"
| "truthy (JNum n) = (n \<noteq> 0)"
| "truthy (JStr s) = (s \<noteq> [])"
| "truthy (JArr xs) = True"
| "truthy (JObj ps) = True"

text \<open>
  The property read \<^verbatim>\<open>c.k\<close> for the names the code reads (\<^verbatim>\<open>term\<close>,
  \<^verbatim>\<open>meaning\<close>, \<^verbatim>\<open>id\<close>): \<open>None\<close> is the \<^verbatim>\<open>TypeError\<close> that reading a
  property of \<^verbatim>\<open>null\<close> or \<^verbatim>\<open>undefined\<close> throws; a missing property, and any
  of these names on a boolean, number, string or array, reads as \<^verbatim>\<open>undefined\<close>.
\<close>

fun get_prop :: "'n jsval \<Rightarrow> string \<Rightarrow> 'n jsval option" where
  "get_prop JUndefined k = None"
| "get_prop JNull k = None"
| "get_prop (JObj ps) k = Some (case map_of ps k of None \<Rightarrow> JUndefined | Some v \<Rightarrow> v)"
| "get_prop (JBool b) k = Some JUndefined"
| "get_prop (JNum n) k = Some JUndefined"
| "get_prop (JStr s) k = Some JUndefined"
| "get_prop (JArr xs) k = Some JUndefined"

text \<open>
  \<^verbatim>\<open>null\<close> and \<^verbatim>\<open>undefined\<close> are the two values whose properties cannot be read. A
  \<^verbatim>\<open>CorpusCard\<close> is an object, so a history that has its declared type holds neither.
\<close>

fun nullish :: "'n jsval \<Rightarrow> bool" where
  "nullish JUndefined = True"
| "nullish JNull = True"
| "nullish v = False"

text \<open>A value that is neither an array nor an object: compared by value, not by reference.\<close>

fun primitive :: "'n jsval \<Rightarrow> bool" where
  "primitive (JArr xs) = False"
| "primitive (JObj ps) = False"
| "primitive v = True"

text \<open>
  \<^verbatim>\<open>existingIds.has(c.id)\<close> compares with SameValueZero: primitives by value, arrays
  and objects by reference. The right operand is always read from a candidate that
  \<^verbatim>\<open>JSON.parse\<close> has just built, so an array or object there is a new reference and is
  equal to no member of the set, which was filled from the cards already in the state.
\<close>

fun same_value_zero :: "'n jsval \<Rightarrow> 'n jsval \<Rightarrow> bool" where
  "same_value_zero JUndefined JUndefined = True"
| "same_value_zero JNull JNull = True"
| "same_value_zero (JBool a) (JBool b) = (a = b)"
| "same_value_zero (JNum a) (JNum b) = (a = b)"
| "same_value_zero (JStr a) (JStr b) = (a = b)"
| "same_value_zero a b = False"

definition set_has :: "'n jsval list \<Rightarrow> 'n jsval \<Rightarrow> bool" where
  "set_has members v = list_ex (\<lambda>m. same_value_zero m v) members"

text \<open>
  \<^verbatim>\<open>Array.prototype.map\<close> and \<^verbatim>\<open>Array.prototype.filter\<close> with a callback that may
  throw: the elements are visited in order and the first exception ends the call
  (\<open>None\<close>).
\<close>

fun map_throw :: "('a \<Rightarrow> 'b option) \<Rightarrow> 'a list \<Rightarrow> 'b list option" where
  "map_throw f [] = Some []"
| "map_throw f (x # xs) =
     (case f x of
        None \<Rightarrow> None
      | Some y \<Rightarrow> (case map_throw f xs of None \<Rightarrow> None | Some ys \<Rightarrow> Some (y # ys)))"

fun filter_throw :: "('a \<Rightarrow> bool option) \<Rightarrow> 'a list \<Rightarrow> 'a list option" where
  "filter_throw p [] = Some []"
| "filter_throw p (x # xs) =
     (case p x of
        None \<Rightarrow> None
      | Some b \<Rightarrow>
          (case filter_throw p xs of
             None \<Rightarrow> None
           | Some ys \<Rightarrow> Some (if b then x # ys else ys)))"

section \<open>The state of \<^verbatim>\<open>App\<close> and its surroundings\<close>

text \<open>
  The messages the component shows are Japanese string literals in the source; they are
  named here by what they say. \<open>ApiKeyNotSet\<close> is the message of the guard at the top of
  \<^verbatim>\<open>handleAnalyze\<close>, \<open>ApiKeyInvalid\<close> and \<open>AnalysisFailed\<close> are the two messages of its
  \<^verbatim>\<open>catch\<close>. \<open>Imported n\<close>, \<open>NoNewCards\<close> and \<open>ReadFailed\<close> are the three
  \<^verbatim>\<open>alert\<close>s of the import handler, \<open>ReadFailed\<close> the one in its \<^verbatim>\<open>catch\<close>.
\<close>

datatype error_msg = ApiKeyNotSet | ApiKeyInvalid | AnalysisFailed

datatype alert = Imported nat | NoNewCards | ReadFailed

datatype log_entry = FailedToParseHistory | AnalyzeError string

text \<open>
  The \<^verbatim>\<open>useState\<close> cells of the component, then what it touches outside itself:
  \<^verbatim>\<open>localStorage\<close>, the \<^verbatim>\<open>console.error\<close> log, the \<^verbatim>\<open>alert\<close>s shown, and the calls
  made to \<^verbatim>\<open>generateCorpusEntry\<close> (term and key of each). \<open>save_pending\<close> records that
  \<^verbatim>\<open>setCards\<close> has been called since the effect \<^verbatim>\<open>useEffect(..., [cards])\<close> last ran:
  React runs that effect after it has committed the next render, not inside the handler
  that called \<^verbatim>\<open>setCards\<close>.
\<close>

record 'n app =
  cards :: "'n jsval list"
  loading :: bool
  error :: "error_msg option"
  apiKey :: string
  isSettingsOpen :: bool
  localStorage :: "string \<rightharpoonup> string"
  save_pending :: bool
  console :: "log_entry list"
  alerts :: "alert list"
  requests :: "(string \<times> string) list"

definition STORAGE_KEY :: string where
  "STORAGE_KEY = ''linguist-corpus-history''"

definition API_KEY_STORAGE_KEY :: string where
  "API_KEY_STORAGE_KEY = ''linguist-gemini-api-key''"

text \<open>
  \<^verbatim>\<open>setCards(updater)\<close>: the state a handler returns is the one React shows at the next
  render, with the queued updates applied; the save effect is then due.
\<close>

definition setCards :: "('n jsval list \<Rightarrow> 'n jsval list) \<Rightarrow> 'n app \<Rightarrow> 'n app" where
  "setCards updater s = s\<lparr>cards := updater (cards s), save_pending := True\<rparr>"

definition show_alert :: "alert \<Rightarrow> 'n app \<Rightarrow> 'n app" where
  "show_alert a s = s\<lparr>alerts := alerts s @ [a]\<rparr>"

subsection \<open>Start of a session\<close>

text \<open>
  \<^verbatim>\<open>localStorage.getItem(API_KEY_STORAGE_KEY) || process.env.API_KEY || ''\<close>:
  \<^verbatim>\<open>getItem\<close> gives \<^verbatim>\<open>null\<close> for an absent key, the environment variable is a
  string or \<^verbatim>\<open>undefined\<close>, and an empty string is falsy like both.
\<close>

definition init_apiKey :: "(string \<rightharpoonup> string) \<Rightarrow> string option \<Rightarrow> string" where
  "init_apiKey ls env_API_KEY =
     (let from_env = (case env_API_KEY of
                        None \<Rightarrow> []
                      | Some e \<Rightarrow> if e \<noteq> [] then e else [])
      in case ls API_KEY_STORAGE_KEY of
           None \<Rightarrow> from_env
         | Some k \<Rightarrow> if k \<noteq> [] then k else from_env)"

definition initial :: "(string \<rightharpoonup> string) \<Rightarrow> string option \<Rightarrow> 'n app" where
  "initial ls env_API_KEY =
     \<lparr>cards = [], loading = False, error = None,
      apiKey = init_apiKey ls env_API_KEY, isSettingsOpen = False,
      localStorage = ls, save_pending = False, console = [], alerts = [], requests = []\<rparr>"

text \<open>
  The first effect, run once on mount. \<^verbatim>\<open>JSON.parse\<close> is the platform's and is a
  parameter: \<open>None\<close> is its \<^verbatim>\<open>SyntaxError\<close>. \<^verbatim>\<open>if (saved)\<close> skips an absent value and
  an empty string alike. \<^verbatim>\<open>setCards(JSON.parse(saved))\<close> stores whatever was parsed; when
  that is not an array the state is no \<^verbatim>\<open>CorpusCard[]\<close> any more, and the result is
  \<open>Inl\<close> of the value stored: the model follows the component no further.
\<close>

definition load_effect :: "(string \<Rightarrow> 'n jsval option) \<Rightarrow> 'n app \<Rightarrow> 'n jsval + 'n app" where
  "load_effect JSON_parse s =
     (case localStorage s STORAGE_KEY of
        None \<Rightarrow> Inr s
      | Some saved \<Rightarrow>
          if saved = [] then Inr s
          else (case JSON_parse saved of
                  None \<Rightarrow> Inr (s\<lparr>console := console s @ [FailedToParseHistory]\<rparr>)
                | Some (JArr xs) \<Rightarrow> Inr (setCards (\<lambda>prev. xs) s)
                | Some v \<Rightarrow> Inl v))"

text \<open>
  The second effect, \<^verbatim>\<open>localStorage.setItem(STORAGE_KEY, JSON.stringify(cards))\<close>, with
  \<^verbatim>\<open>JSON.stringify\<close> a parameter; \<open>flush_effects\<close> is React running it after a commit in
  which \<^verbatim>\<open>cards\<close> changed.
\<close>

definition save_effect :: "('n jsval \<Rightarrow> string) \<Rightarrow> 'n app \<Rightarrow> 'n app" where
  "save_effect JSON_stringify s =
     s\<lparr>localStorage := (localStorage s)(STORAGE_KEY \<mapsto> JSON_stringify (JArr (cards s))),
       save_pending := False\<rparr>"

definition flush_effects :: "('n jsval \<Rightarrow> string) \<Rightarrow> 'n app \<Rightarrow> 'n app" where
  "flush_effects JSON_stringify s = (if save_pending s then save_effect JSON_stringify s else s)"

text \<open>
  Mount: both effects run after the first render, in the order they are written. The
  save effect of that render still sees \<^verbatim>\<open>cards = []\<close>; if the load effect called
  \<^verbatim>\<open>setCards\<close>, the component renders again and then runs the save effect on the
  loaded cards. That render reads \<^verbatim>\<open>key={card.id}\<close> of every card, so it throws on a
  loaded \<^verbatim>\<open>null\<close> element; nothing catches this, React unmounts the component, and the
  second save never runs. \<open>Inl\<close> is the end of the component: the value \<^verbatim>\<open>setCards\<close>
  was given, which is no array of cards, and \<^verbatim>\<open>localStorage\<close> as the first save effect
  left it, the stored history overwritten by the serialization of the empty list.
\<close>

definition mount ::
  "(string \<Rightarrow> 'n jsval option) \<Rightarrow> ('n jsval \<Rightarrow> string) \<Rightarrow> (string \<rightharpoonup> string) \<Rightarrow> string option
     \<Rightarrow> ('n jsval \<times> (string \<rightharpoonup> string)) + 'n app" where
  "mount JSON_parse JSON_stringify ls env_API_KEY =
     (let s0 = initial ls env_API_KEY in
      case load_effect JSON_parse s0 of
        Inl v \<Rightarrow>
          Inl (v, (localStorage s0)(STORAGE_KEY \<mapsto> JSON_stringify (JArr (cards s0))))
      | Inr s1 \<Rightarrow>
          if list_ex nullish (cards s1)
          then Inl (JArr (cards s1),
                    (localStorage s1)(STORAGE_KEY \<mapsto> JSON_stringify (JArr (cards s0))))
          else
            Inr (flush_effects JSON_stringify
                   (s1\<lparr>localStorage :=
                         (localStorage s1)(STORAGE_KEY \<mapsto> JSON_stringify (JArr (cards s0)))\<rparr>)))"

subsection \<open>The handlers\<close>

definition handleSaveApiKey :: "string \<Rightarrow> 'n app \<Rightarrow> 'n app" where
  "handleSaveApiKey key s =
     (let s1 = s\<lparr>apiKey := key\<rparr> in
      if key \<noteq> []
      then s1\<lparr>localStorage := (localStorage s1)(API_KEY_STORAGE_KEY \<mapsto> key)\<rparr>
      else s1\<lparr>localStorage := (localStorage s1)(API_KEY_STORAGE_KEY := None)\<rparr>)"

text \<open>
  \<^verbatim>\<open>generateCorpusEntry\<close> lives in \<^verbatim>\<open>./services/geminiService\<close>, outside the files
  at hand, and is a parameter: it resolves to the entry (an object, given by its
  properties) or rejects with an \<^verbatim>\<open>Error\<close>, given by its \<^verbatim>\<open>message\<close>.
\<close>

datatype 'n gen_result = Resolved "(string \<times> 'n jsval) list" | Rejected string

text \<open>
  \<^verbatim>\<open>{...entry, id: crypto.randomUUID(), createdAt: Date.now()}\<close>: the spread copies the
  entry's properties in order; \<^verbatim>\<open>id\<close> and \<^verbatim>\<open>createdAt\<close> then overwrite a property of
  that name where it stands, or are added at the end. The UUID and the clock are inputs.
\<close>

definition newCard :: "(string \<times> 'n jsval) list \<Rightarrow> string \<Rightarrow> 'n \<Rightarrow> 'n jsval" where
  "newCard entry uuid now =
     JObj (AList.update ''createdAt'' (JNum now) (AList.update ''id'' (JStr uuid) entry))"

text \<open>The updater \<^verbatim>\<open>prev => [newCard, ...prev]\<close>.\<close>

definition prepend :: "'n jsval \<Rightarrow> 'n jsval list \<Rightarrow> 'n jsval list" where
  "prepend new_card prev = new_card # prev"

text \<open>
  \<^verbatim>\<open>handleAnalyze\<close>, from the call to the settling of the promise. The \<^verbatim>\<open>await\<close> is
  taken in one step: the update of \<^verbatim>\<open>cards\<close> is the functional one, applied to the
  state at the time the promise settles.
\<close>

definition handleAnalyze ::
  "(string \<Rightarrow> string \<Rightarrow> 'n gen_result) \<Rightarrow> string \<Rightarrow> 'n \<Rightarrow> string \<Rightarrow> 'n app \<Rightarrow> 'n app" where
  "handleAnalyze generateCorpusEntry uuid now term s =
     (if apiKey s = []
      then s\<lparr>isSettingsOpen := True, error := Some ApiKeyNotSet\<rparr>
      else
        let s1 = s\<lparr>loading := True, error := None,
                   requests := requests s @ [(term, apiKey s)]\<rparr>
        in (case generateCorpusEntry term (apiKey s) of
              Resolved entry \<Rightarrow>
                (setCards (prepend (newCard entry uuid now)) s1)\<lparr>loading := False\<rparr>
            | Rejected message \<Rightarrow>
                (let s2 = s1\<lparr>console := console s1 @ [AnalyzeError message]\<rparr> in
                 if message \<noteq> [] \<and> sublist ''API Key'' message
                 then s2\<lparr>error := Some ApiKeyInvalid, isSettingsOpen := True, loading := False\<rparr>
                 else s2\<lparr>error := Some AnalysisFailed, loading := False\<rparr>)))"

text \<open>
  The updater \<^verbatim>\<open>prev => prev.filter(c => c.id !== id)\<close>, with \<^verbatim>\<open>id\<close> a string:
  \<^verbatim>\<open>!==\<close> is false only for a card whose \<^verbatim>\<open>id\<close> is that very string.
\<close>

definition remove :: "string \<Rightarrow> 'n jsval list \<Rightarrow> 'n jsval list option" where
  "remove card_id prev =
     filter_throw
       (\<lambda>c. case get_prop c ''id'' of None \<Rightarrow> None | Some i \<Rightarrow> Some (i \<noteq> JStr card_id))
       prev"

text \<open>
  \<^verbatim>\<open>handleDelete\<close>: \<open>confirmed\<close> is the answer of \<^verbatim>\<open>window.confirm\<close>. \<open>None\<close> is the
  \<^verbatim>\<open>TypeError\<close> of the updater, which nothing catches.
\<close>

definition handleDelete :: "bool \<Rightarrow> string \<Rightarrow> 'n app \<Rightarrow> 'n app option" where
  "handleDelete confirmed card_id s =
     (if confirmed
      then (case remove card_id (cards s) of
              None \<Rightarrow> None
            | Some kept \<Rightarrow> Some (setCards (\<lambda>prev. kept) s))
      else Some s)"


text \<open>
  The filter of the import,
  \<^verbatim>\<open>c.term && c.meaning && !existingIds.has(c.id)\<close>, evaluated left to right with
  the short circuit of \<^verbatim>\<open>&&\<close>.
\<close>

definition is_new :: "'n::zero jsval list \<Rightarrow> 'n jsval \<Rightarrow> bool option" where
  "is_new existingIds c =
     (case get_prop c ''term'' of
        None \<Rightarrow> None
      | Some t \<Rightarrow>
          if \<not> truthy t then Some False
          else (case get_prop c ''meaning'' of
                  None \<Rightarrow> None
                | Some m \<Rightarrow>
                    if \<not> truthy m then Some False
                    else (case get_prop c ''id'' of
                            None \<Rightarrow> None
                          | Some i \<Rightarrow> Some (\<not> set_has existingIds i))))"

text \<open>
  \<^verbatim>\<open>existingIds = new Set(cards.map(c => c.id))\<close> and
  \<^verbatim>\<open>newCards = imported.filter(...)\<close>. \<open>snapshot\<close> is the \<^verbatim>\<open>cards\<close> the handler closed
  over. \<open>None\<close> is an exception thrown on the way.
\<close>

definition newCards_of :: "'n::zero jsval list \<Rightarrow> 'n jsval list \<Rightarrow> 'n jsval list option" where
  "newCards_of snapshot imported =
     (case map_throw (\<lambda>c. get_prop c ''id'') snapshot of
        None \<Rightarrow> None
      | Some existingIds \<Rightarrow> filter_throw (is_new existingIds) imported)"

text \<open>
  \<^verbatim>\<open>reader.onload\<close> of \<^verbatim>\<open>handleImportFile\<close>, on the text of the file. Everything is
  inside one \<^verbatim>\<open>try\<close>: the \<^verbatim>\<open>SyntaxError\<close> of \<^verbatim>\<open>JSON.parse\<close> and a
  \<^verbatim>\<open>TypeError\<close> of the two callbacks both end in the \<^verbatim>\<open>alert\<close> of the
  \<^verbatim>\<open>catch\<close>. A parsed value that is not an array falls through the \<^verbatim>\<open>if\<close>, which has
  no \<^verbatim>\<open>else\<close>.
\<close>

definition handleImportFile_onload ::
  "(string \<Rightarrow> 'n jsval option) \<Rightarrow> 'n::zero jsval list \<Rightarrow> string \<Rightarrow> 'n app \<Rightarrow> 'n app" where
  "handleImportFile_onload JSON_parse snapshot text s =
     (case JSON_parse text of
        None \<Rightarrow> show_alert ReadFailed s
      | Some (JArr imported) \<Rightarrow>
          (case newCards_of snapshot imported of
             None \<Rightarrow> show_alert ReadFailed s
           | Some newCards \<Rightarrow>
               if length newCards > 0
               then show_alert (Imported (length newCards))
                      (setCards (\<lambda>prev. newCards @ prev) s)
               else show_alert NoNewCards s)
      | Some v \<Rightarrow> s)"

text \<open>
  \<^verbatim>\<open>handleImportFile\<close> with the read of the file completing before anything else
  happens: no file chosen returns at once; otherwise the closure's \<^verbatim>\<open>cards\<close> are those
  of the state.
\<close>

definition handleImportFile ::
  "(string \<Rightarrow> 'n jsval option) \<Rightarrow> string option \<Rightarrow> 'n::zero app \<Rightarrow> 'n app" where
  "handleImportFile JSON_parse file s =
     (case file of
        None \<Rightarrow> s
      | Some text \<Rightarrow> handleImportFile_onload JSON_parse (cards s) text s)"

section \<open>Notions used to state the properties\<close>

text \<open>What \<^verbatim>\<open>c.k\<close> reads when it does not throw.\<close>

definition field :: "'n jsval \<Rightarrow> string \<Rightarrow> 'n jsval" where
  "field c k = (case get_prop c k of None \<Rightarrow> JUndefined | Some v \<Rightarrow> v)"

definition ids_of :: "'n jsval list \<Rightarrow> 'n jsval list" where
  "ids_of H = map (\<lambda>c. field c ''id'') H"

text \<open>
  What the filter of the import computes on a candidate whose properties can be read
  (lemma \<open>is_new_total\<close> below): \<^verbatim>\<open>term\<close> and \<^verbatim>\<open>meaning\<close> are truthy and the
  \<^verbatim>\<open>id\<close> is not found in the \<^verbatim>\<open>Set\<close> of the ids of \<open>H\<close>.
\<close>

definition passes_filter :: "'n::zero jsval list \<Rightarrow> 'n jsval \<Rightarrow> bool" where
  "passes_filter H c \<longleftrightarrow>
     truthy (field c ''term'') \<and> truthy (field c ''meaning'')
     \<and> \<not> set_has (ids_of H) (field c ''id'')"

text \<open>
  The acceptance rule of the import as the specification words it: \<^verbatim>\<open>term\<close> and
  \<^verbatim>\<open>meaning\<close> are non-empty, read as JavaScript reads a value in a condition (not
  \<^verbatim>\<open>undefined\<close>, \<^verbatim>\<open>null\<close>, \<^verbatim>\<open>false\<close>, zero or the empty string), and the
  \<^verbatim>\<open>id\<close> is not already present in the history \<open>H\<close>: no card of \<open>H\<close> has that
  \<^verbatim>\<open>id\<close>, compared by value.
\<close>

definition eligible :: "'n::zero jsval list \<Rightarrow> 'n jsval \<Rightarrow> bool" where
  "eligible H c \<longleftrightarrow>
     truthy (field c ''term'') \<and> truthy (field c ''meaning'')
     \<and> field c ''id'' \<notin> set (ids_of H)"

text \<open>The stored history value is the serialization of the history in memory.\<close>

definition mirrors :: "('n jsval \<Rightarrow> string) \<Rightarrow> 'n app \<Rightarrow> bool" where
  "mirrors JSON_stringify s \<longleftrightarrow>
     localStorage s STORAGE_KEY = Some (JSON_stringify (JArr (cards s)))"

subsection \<open>Sample data\<close>

text \<open>
  Cards, file texts and states for the concrete instances below. The cards carry the
  three properties the handlers read; numbers are integers here.
\<close>

definition card_a :: "int jsval" where
  "card_a = JObj [(''id'', JStr ''a''), (''term'', JStr ''huilu''), (''meaning'', JStr ''bribe'')]"

definition card_b :: "int jsval" where
  "card_b =
     JObj [(''id'', JStr ''b''), (''term'', JStr ''qingbao''), (''meaning'', JStr ''intelligence'')]"

definition card_a_again :: "int jsval" where
  "card_a_again =
     JObj [(''id'', JStr ''a''), (''term'', JStr ''qingbao''), (''meaning'', JStr ''intelligence'')]"

definition card_ref :: "int jsval" where
  "card_ref =
     JObj [(''id'', JArr [JNum 1]), (''term'', JStr ''huilu''), (''meaning'', JStr ''bribe'')]"

definition file_a :: string where
  \<open>file_a = ''[{"id":"a","term":"huilu","meaning":"bribe"}]''\<close>

definition file_a_b :: string where
  \<open>file_a_b =
     ''[{"id":"a","term":"huilu","meaning":"bribe"},{"id":"b","term":"qingbao","meaning":"intelligence"}]''\<close>

definition file_5_b :: string where
  \<open>file_5_b = ''[5,{"id":"b","term":"qingbao","meaning":"intelligence"}]''\<close>

definition file_empty :: string where
  "file_empty = ''[]''"

definition file_a_a :: string where
  \<open>file_a_a =
     ''[{"id":"a","term":"huilu","meaning":"bribe"},{"id":"a","term":"qingbao","meaning":"intelligence"}]''\<close>

definition file_null_b :: string where
  \<open>file_null_b = ''[null,{"id":"b","term":"qingbao","meaning":"intelligence"}]''\<close>

definition file_ref :: string where
  \<open>file_ref = ''[{"id":[1],"term":"huilu","meaning":"bribe"}]''\<close>

definition file_object :: string where
  \<open>file_object = ''{"id":"a","term":"huilu","meaning":"bribe"}''\<close>

definition file_truncated :: string where
  \<open>file_truncated = ''[{"id":"a","term":"hui''\<close>

text \<open>A fresh session, with nothing stored, whose history has become \<open>H\<close>.\<close>

definition holding :: "int jsval list \<Rightarrow> int app" where
  "holding H = (initial Map.empty None)\<lparr>cards := H\<rparr>"

text \<open>
  Stand-ins for \<^verbatim>\<open>JSON.parse\<close> and \<^verbatim>\<open>JSON.stringify\<close> in the concrete instances:
  \<open>reads_as contents v\<close> parses the one text \<open>contents\<close>, to the value \<open>v\<close> it denotes,
  and rejects every other text; \<open>writes_as v contents other\<close> serializes \<open>v\<close> to
  \<open>contents\<close> and anything else to \<open>other\<close>.
\<close>

definition reads_as :: "string \<Rightarrow> int jsval \<Rightarrow> string \<Rightarrow> int jsval option" where
  "reads_as contents v t = (if t = contents then Some v else None)"

definition writes_as :: "int jsval \<Rightarrow> string \<Rightarrow> string \<Rightarrow> int jsval \<Rightarrow> string" where
  "writes_as v contents other x = (if x = v then contents else other)"

section \<open>Auxiliary facts\<close>

subsection \<open>Reading properties, and callbacks that throw\<close>

lemma get_prop_None_iff: "get_prop c k = None \<longleftrightarrow> nullish c"
  by (cases c) simp_all

lemma get_prop_field: "\<not> nullish c \<Longrightarrow> get_prop c k = Some (field c k)"
  by (cases c) (simp_all add: field_def)


lemma map_throw_total: "\<forall>x\<in>set xs. f x = Some (g x) \<Longrightarrow> map_throw f xs = Some (map g xs)"
  by (induction xs) simp_all

lemma map_throw_None_iff: "map_throw f xs = None \<longleftrightarrow> (\<exists>x\<in>set xs. f x = None)"
  by (induction xs) (auto split: option.splits)

lemma filter_throw_total:
  "\<forall>x\<in>set xs. p x = Some (q x) \<Longrightarrow> filter_throw p xs = Some (filter q xs)"
  by (induction xs) simp_all

lemma filter_throw_None_iff: "filter_throw p xs = None \<longleftrightarrow> (\<exists>x\<in>set xs. p x = None)"
  by (induction xs) (auto split: option.splits)

lemma filter_throw_Some:
  "filter_throw p xs = Some ys \<Longrightarrow> ys = filter (\<lambda>x. p x = Some True) xs"
  by (induction xs arbitrary: ys) (auto split: option.splits)

subsection \<open>Membership in the set of existing ids\<close>

lemma same_value_zero_eq: "same_value_zero a b \<Longrightarrow> a = b"
  by (induction a b rule: same_value_zero.induct) simp_all

lemma same_value_zero_refl: "primitive v \<Longrightarrow> same_value_zero v v"
  by (cases v) simp_all

text \<open>For a primitive, membership in the \<^verbatim>\<open>Set\<close> is membership by value.\<close>

lemma set_has_primitive: "primitive v \<Longrightarrow> set_has members v \<longleftrightarrow> v \<in> set members"
  unfolding set_has_def list_ex_iff
  using same_value_zero_eq same_value_zero_refl by blast

text \<open>A freshly parsed array or object is in no \<^verbatim>\<open>Set\<close> built before it.\<close>

lemma set_has_not_primitive: "\<not> primitive v \<Longrightarrow> \<not> set_has members v"
  unfolding set_has_def list_ex_iff
  by (cases v) auto

lemma set_has_append: "set_has (xs @ ys) v \<longleftrightarrow> set_has xs v \<or> set_has ys v"
  by (simp add: set_has_def list_ex_iff) blast

subsection \<open>The import filter\<close>

lemma is_new_total:
  "\<not> nullish c \<Longrightarrow>
   is_new ids c = Some (truthy (field c ''term'') \<and> truthy (field c ''meaning'')
                        \<and> \<not> set_has ids (field c ''id''))"
  by (simp add: is_new_def get_prop_field)

lemma is_new_None_iff: "is_new ids c = None \<longleftrightarrow> nullish c"
proof (cases "nullish c")
  case True
  then have "get_prop c ''term'' = None" by (simp add: get_prop_None_iff)
  with True show ?thesis by (simp add: is_new_def)
next
  case False
  then show ?thesis by (simp add: is_new_total)
qed

lemma existingIds_total:
  "\<forall>c\<in>set H. \<not> nullish c \<Longrightarrow> map_throw (\<lambda>c. get_prop c ''id'') H = Some (ids_of H)"
  unfolding ids_of_def by (rule map_throw_total) (simp add: get_prop_field)

lemma newCards_of_total:
  assumes "\<forall>c\<in>set H. \<not> nullish c" and "\<forall>c\<in>set C. \<not> nullish c"
  shows "newCards_of H C = Some (filter (passes_filter H) C)"
proof -
  have "filter_throw (is_new (ids_of H)) C = Some (filter (passes_filter H) C)"
    by (rule filter_throw_total) (simp add: assms(2) is_new_total passes_filter_def)
  then show ?thesis
    by (simp add: newCards_of_def existingIds_total [OF assms(1)])
qed

text \<open>The import throws exactly when a card or a candidate is \<^verbatim>\<open>null\<close> or \<^verbatim>\<open>undefined\<close>.\<close>

lemma newCards_of_None_iff:
  "newCards_of H C = None \<longleftrightarrow> (\<exists>c\<in>set H. nullish c) \<or> (\<exists>c\<in>set C. nullish c)"
proof (cases "map_throw (\<lambda>c. get_prop c ''id'') H")
  case None
  then show ?thesis
    by (simp add: newCards_of_def) (simp add: map_throw_None_iff get_prop_None_iff)
next
  case (Some ids)
  then have "\<not> (\<exists>c\<in>set H. nullish c)"
    using map_throw_None_iff [of "\<lambda>c. get_prop c ''id''" H] by (simp add: get_prop_None_iff)
  with Some show ?thesis
    by (simp add: newCards_of_def filter_throw_None_iff is_new_None_iff)
qed

lemma import_array:
  assumes "JSON_parse contents = Some (JArr C)"
    and "\<forall>c\<in>set (cards s). \<not> nullish c" and "\<forall>c\<in>set C. \<not> nullish c"
  shows "handleImportFile JSON_parse (Some contents) s =
     (if filter (passes_filter (cards s)) C = [] then show_alert NoNewCards s
      else show_alert (Imported (length (filter (passes_filter (cards s)) C)))
             (setCards (\<lambda>prev. filter (passes_filter (cards s)) C @ prev) s))"
  by (simp add: handleImportFile_def handleImportFile_onload_def assms(1)
      newCards_of_total [OF assms(2,3)])

lemma import_array_cards:
  assumes "JSON_parse contents = Some (JArr C)"
    and "\<forall>c\<in>set (cards s). \<not> nullish c" and "\<forall>c\<in>set C. \<not> nullish c"
  shows "cards (handleImportFile JSON_parse (Some contents) s)
           = filter (passes_filter (cards s)) C @ cards s"
  using import_array [of JSON_parse contents C s] assms
  by (simp add: show_alert_def setCards_def)

lemma import_array_alerts:
  assumes "JSON_parse contents = Some (JArr C)"
    and "\<forall>c\<in>set (cards s). \<not> nullish c" and "\<forall>c\<in>set C. \<not> nullish c"
  shows "alerts (handleImportFile JSON_parse (Some contents) s)
           = alerts s @ [if filter (passes_filter (cards s)) C = [] then NoNewCards
                         else Imported (length (filter (passes_filter (cards s)) C))]"
  using import_array [of JSON_parse contents C s] assms
  by (simp add: show_alert_def setCards_def)

text \<open>A \<^verbatim>\<open>null\<close> among the candidates ends the import in the \<^verbatim>\<open>catch\<close>.\<close>

lemma import_nullish_fails:
  assumes "JSON_parse contents = Some (JArr C)" and "\<exists>c\<in>set C. nullish c"
  shows "handleImportFile JSON_parse (Some contents) s = show_alert ReadFailed s"
proof -
  have "newCards_of (cards s) C = None"
    using assms(2) by (simp add: newCards_of_None_iff)
  then show ?thesis
    by (simp add: handleImportFile_def handleImportFile_onload_def assms(1))
qed

lemma import_not_array:
  assumes "JSON_parse contents = Some v" and "\<forall>xs. v \<noteq> JArr xs"
  shows "handleImportFile JSON_parse (Some contents) s = s"
  using assms by (cases v) (simp_all add: handleImportFile_def handleImportFile_onload_def)

lemma import_unparsable:
  assumes "JSON_parse contents = None"
  shows "handleImportFile JSON_parse (Some contents) s = show_alert ReadFailed s"
  using assms by (simp add: handleImportFile_def handleImportFile_onload_def)

lemma passes_after_merge:
  assumes "\<forall>c\<in>set C. primitive (field c ''id'')" and "c \<in> set C"
  shows "\<not> passes_filter (filter (passes_filter H) C @ H) c"
proof (cases "passes_filter H c")
  case True
  with assms(2) have "field c ''id'' \<in> set (ids_of (filter (passes_filter H) C))"
    by (auto simp: ids_of_def)
  then have "set_has (ids_of (filter (passes_filter H) C @ H)) (field c ''id'')"
    using assms by (simp add: set_has_primitive ids_of_def)
  then show ?thesis by (simp add: passes_filter_def)
next
  case False
  then show ?thesis by (auto simp: passes_filter_def ids_of_def set_has_append)
qed

subsection \<open>Removal, analysis and the save effect\<close>

lemma remove_total:
  assumes "\<forall>c\<in>set H. \<not> nullish c"
  shows "remove card_id H = Some (filter (\<lambda>c. field c ''id'' \<noteq> JStr card_id) H)"
  unfolding remove_def
  by (rule filter_throw_total) (simp add: assms get_prop_field)

lemma handleAnalyze_resolved:
  assumes "apiKey s \<noteq> []" and "generateCorpusEntry term (apiKey s) = Resolved entry"
  shows "handleAnalyze generateCorpusEntry uuid now term s =
           s\<lparr>cards := newCard entry uuid now # cards s, save_pending := True,
             loading := False, error := None,
             requests := requests s @ [(term, apiKey s)]\<rparr>"
  using assms by (simp add: handleAnalyze_def setCards_def prepend_def)

lemma field_newCard_id: "field (newCard entry uuid now) ''id'' = JStr uuid"
  by (simp add: field_def newCard_def update_conv')

lemma mirrors_flush: "save_pending s \<Longrightarrow> mirrors str (flush_effects str s)"
  by (simp add: mirrors_def flush_effects_def save_effect_def)

lemma localStorage_import: "localStorage (handleImportFile JSON_parse chosen s) = localStorage s"
  by (simp add: handleImportFile_def handleImportFile_onload_def show_alert_def setCards_def
      split: option.splits jsval.splits)

lemma import_same_or_pending:
  "cards (handleImportFile JSON_parse chosen s) = cards s
   \<or> save_pending (handleImportFile JSON_parse chosen s)"
  by (simp add: handleImportFile_def handleImportFile_onload_def show_alert_def setCards_def
      split: option.split jsval.split)

text \<open>
  After mount the stored value is the serialization of the history, and nothing is pending.
\<close>

lemma mount_mirrors:
  "mount JSON_parse str ls env_API_KEY = Inr s \<Longrightarrow> mirrors str s \<and> \<not> save_pending s"
  by (auto simp: mount_def load_effect_def initial_def setCards_def flush_effects_def
      save_effect_def mirrors_def Let_def split: option.splits if_splits jsval.splits)

text \<open>
  A stored array that holds \<^verbatim>\<open>null\<close> ends the component at mount, and the stored
  history is left overwritten by the serialization of the empty list.
\<close>

lemma mount_null_element:
  "mount (reads_as file_null_b (JArr [JNull, card_b])) (writes_as (JArr []) ''[]'' file_null_b)
     [STORAGE_KEY \<mapsto> file_null_b] None
   = Inl (JArr [JNull, card_b], [STORAGE_KEY \<mapsto> ''[]''])"
  by (simp add: mount_def load_effect_def initial_def setCards_def reads_as_def writes_as_def
      file_null_b_def Let_def)

subsection \<open>The sample data\<close>

lemma sample_cards:
  "\<not> nullish card_a" "\<not> nullish card_b" "\<not> nullish card_a_again" "\<not> nullish card_ref"
  "truthy (field card_a ''term'')" "truthy (field card_a ''meaning'')"
  "truthy (field card_b ''term'')" "truthy (field card_b ''meaning'')"
  "primitive (field card_a ''id'')" "primitive (field card_b ''id'')"
  by (simp_all add: field_def card_a_def card_b_def card_a_again_def card_ref_def)

lemma passes_samples:
  "\<not> passes_filter [card_a] card_a" "passes_filter [card_a] card_b" "\<not> passes_filter H (JNum 5)"
  "\<not> passes_filter [card_a] (JObj [(''id'', JStr ''c''), (''term'', JStr [])])"
  "passes_filter [] card_a" "passes_filter [] card_b" "passes_filter [] card_a_again" "passes_filter [] card_ref"
  "passes_filter [card_ref] card_ref" "\<not> passes_filter H JNull"
  "\<not> passes_filter [card_b, card_a] card_a" "\<not> passes_filter [card_b, card_a] card_b"
  by (simp_all add: passes_filter_def field_def ids_of_def set_has_def card_a_def card_b_def
      card_a_again_def card_ref_def)

subsection \<open>The filter and the acceptance rule\<close>

text \<open>
  On a primitive \<^verbatim>\<open>id\<close> the filter decides as the acceptance rule does; an \<^verbatim>\<open>id\<close>
  that is an array or object always passes, whatever the history holds.
\<close>

lemma passes_filter_eligible:
  "primitive (field c ''id'') \<Longrightarrow> passes_filter H c \<longleftrightarrow> eligible H c"
  by (simp add: passes_filter_def eligible_def set_has_primitive)

text \<open>
  With no \<^verbatim>\<open>null\<close> among cards and candidates, and primitive ids, the import takes
  exactly the eligible candidates, in their order, in front of the history, and reports
  their number.
\<close>

lemma import_takes_eligible:
  assumes "JSON_parse contents = Some (JArr C)"
    and "\<forall>c\<in>set (cards s). \<not> nullish c"
    and "\<forall>c\<in>set C. \<not> nullish c \<and> primitive (field c ''id'')"
  shows "cards (handleImportFile JSON_parse (Some contents) s)
           = filter (eligible (cards s)) C @ cards s"
    and "alerts (handleImportFile JSON_parse (Some contents) s)
           = alerts s @ [if filter (eligible (cards s)) C = [] then NoNewCards
                         else Imported (length (filter (eligible (cards s)) C))]"
proof -
  have same: "filter (passes_filter (cards s)) C = filter (eligible (cards s)) C"
    using assms(3) by (simp add: passes_filter_eligible cong: filter_cong)
  show "cards (handleImportFile JSON_parse (Some contents) s)
           = filter (eligible (cards s)) C @ cards s"
    using import_array_cards [of JSON_parse contents C s] assms by (simp add: same)
  show "alerts (handleImportFile JSON_parse (Some contents) s)
           = alerts s @ [if filter (eligible (cards s)) C = [] then NoNewCards
                         else Imported (length (filter (eligible (cards s)) C))]"
    using import_array_alerts [of JSON_parse contents C s] assms by (simp add: same)
qed

subsection \<open>What the handlers keep\<close>

text \<open>
  No handler puts \<^verbatim>\<open>null\<close> or \<^verbatim>\<open>undefined\<close> into the history: the card of an
  analysis is an object, a removal only drops cards, and a candidate passes the import
  filter only after its \<^verbatim>\<open>term\<close> has been read.
\<close>

lemma cards_stay_objects:
  assumes "\<forall>c\<in>set (cards s). \<not> nullish c"
  shows "\<forall>c\<in>set (cards (handleAnalyze generateCorpusEntry uuid now term s)). \<not> nullish c"
    and "handleDelete confirmed card_id s = Some s' \<Longrightarrow> \<forall>c\<in>set (cards s'). \<not> nullish c"
    and "\<forall>c\<in>set (cards (handleImportFile JSON_parse chosen s)). \<not> nullish c"
proof -
  show "\<forall>c\<in>set (cards (handleAnalyze generateCorpusEntry uuid now term s)). \<not> nullish c"
    using assms
    by (auto simp: handleAnalyze_def setCards_def prepend_def newCard_def Let_def
        split: gen_result.splits)
next
  assume del: "handleDelete confirmed card_id s = Some s'"
  show "\<forall>c\<in>set (cards s'). \<not> nullish c"
  proof (cases confirmed)
    case True
    with del obtain kept where k: "remove card_id (cards s) = Some kept" "cards s' = kept"
      by (auto simp: handleDelete_def setCards_def split: option.splits)
    then obtain keep where "kept = filter keep (cards s)"
      unfolding remove_def using filter_throw_Some by blast
    with k assms show ?thesis by simp
  next
    case False
    with del assms show ?thesis by (simp add: handleDelete_def)
  qed
next
  have "\<forall>c\<in>set N. \<not> nullish c" if "newCards_of (cards s) C = Some N" for C N
  proof -
    from that have "\<forall>c\<in>set C. \<not> nullish c"
      using newCards_of_None_iff [of "cards s" C] by auto
    moreover from that have "N = filter (passes_filter (cards s)) C"
      using newCards_of_total [of "cards s" C] assms calculation by simp
    ultimately show ?thesis by simp
  qed
  then show "\<forall>c\<in>set (cards (handleImportFile JSON_parse chosen s)). \<not> nullish c"
    using assms
    by (auto simp: handleImportFile_def handleImportFile_onload_def show_alert_def setCards_def
        split: option.splits jsval.splits)
qed

text \<open>
  The ids stay pairwise distinct when an analysis draws a UUID no card has, under every
  removal, and under an import whose candidates carry pairwise distinct primitive ids.
\<close>

lemma prepend_ids_distinct:
  assumes "distinct (ids_of H)" and "JStr uuid \<notin> set (ids_of H)"
  shows "distinct (ids_of (prepend (newCard entry uuid now) H))"
  using assms by (simp add: prepend_def ids_of_def field_newCard_id)

lemma remove_ids_distinct:
  assumes "distinct (ids_of H)" and "remove card_id H = Some H'"
  shows "distinct (ids_of H')"
proof -
  from assms(2) obtain keep where "H' = filter keep H"
    unfolding remove_def using filter_throw_Some by blast
  with assms(1) show ?thesis
    by (simp add: ids_of_def distinct_map_filter)
qed

lemma import_ids_distinct:
  assumes "distinct (ids_of H)" and "distinct (ids_of C)"
    and "\<forall>c\<in>set C. primitive (field c ''id'')"
    and "newCards_of H C = Some N"
  shows "distinct (ids_of (N @ H))"
proof -
  from assms(4) have nn: "\<forall>c\<in>set H. \<not> nullish c" "\<forall>c\<in>set C. \<not> nullish c"
    using newCards_of_None_iff [of H C] by auto
  with assms(4) have N: "N = filter (passes_filter H) C"
    by (simp add: newCards_of_total)
  have "distinct (ids_of N)"
    using assms(2) by (simp add: N ids_of_def distinct_map_filter)
  moreover have "set (ids_of N) \<inter> set (ids_of H) = {}"
  proof -
    have "field c ''id'' \<notin> set (ids_of H)" if "c \<in> set N" for c
    proof -
      from that have "c \<in> set C" "passes_filter H c" by (simp_all add: N)
      then show ?thesis
        using assms(3) by (simp add: passes_filter_def set_has_primitive)
    qed
    then show ?thesis by (auto simp: ids_of_def)
  qed
  ultimately show ?thesis
    using assms(1) by (simp add: ids_of_def)
qed

section \<open>The properties\<close>

subsection \<open>Distinct ids\<close>

text \<open>
  C1. Every history reached from the empty one by analyses, removals and imports should
  hold no two cards with the same \<^verbatim>\<open>id\<close>. The import does not keep this: the set of
  existing ids is built once, from the cards already in the state, so two candidates of
  one file that share an id both pass the filter. Importing the file \<open>file_a_a\<close> into the
  empty history leaves two cards with the id \<open>a\<close>, and reports two cards read.
\<close>

theorem import_keeps_duplicate_ids:
  "cards (handleImportFile (reads_as file_a_a (JArr [card_a, card_a_again])) (Some file_a_a)
            (holding []))
     = [card_a, card_a_again]
   \<and> ids_of [card_a, card_a_again] = [JStr ''a'', JStr ''a'']
   \<and> \<not> distinct (ids_of (cards (handleImportFile
          (reads_as file_a_a (JArr [card_a, card_a_again])) (Some file_a_a) (holding []))))
   \<and> alerts (handleImportFile (reads_as file_a_a (JArr [card_a, card_a_again])) (Some file_a_a)
            (holding []))
     = [Imported 2]"
  by (simp add: handleImportFile_def handleImportFile_onload_def newCards_of_def is_new_def
      set_has_def holding_def initial_def reads_as_def card_a_def card_a_again_def setCards_def
      show_alert_def ids_of_def field_def)

subsection \<open>What an import accepts\<close>

text \<open>
  C2. For every history and every sequence of candidates, the import should accept exactly
  the candidates that are \<open>eligible\<close> (non-empty \<^verbatim>\<open>term\<close> and \<^verbatim>\<open>meaning\<close>, an
  \<^verbatim>\<open>id\<close> not already in the history), put them in front of the history in their
  order, and report their number. The import does not do this for a file with a
  \<^verbatim>\<open>null\<close> element: reading \<^verbatim>\<open>c.term\<close> of it throws inside the filter, the
  \<^verbatim>\<open>catch\<close> reports a failed read, and the eligible \<open>card_b\<close> next to it is not
  accepted. A number in the same place is skipped, as every other element without the two
  fields is, and \<open>card_b\<close> is accepted and counted.
\<close>

theorem import_null_element_refuses_file:
  "eligible [] card_b
   \<and> cards (handleImportFile (reads_as file_null_b (JArr [JNull, card_b])) (Some file_null_b)
        (holding []))
     = []
   \<and> alerts (handleImportFile (reads_as file_null_b (JArr [JNull, card_b])) (Some file_null_b)
        (holding []))
     = [ReadFailed]
   \<and> cards (handleImportFile (reads_as file_5_b (JArr [JNum 5, card_b])) (Some file_5_b)
        (holding []))
     = [card_b]
   \<and> alerts (handleImportFile (reads_as file_5_b (JArr [JNum 5, card_b])) (Some file_5_b)
        (holding []))
     = [Imported 1]"
proof -
  have e: "eligible [] card_b"
    by (simp add: eligible_def ids_of_def sample_cards)
  have H: "cards (holding []) = []" "alerts (holding []) = []"
    by (simp_all add: holding_def initial_def)
  have n: "handleImportFile (reads_as file_null_b (JArr [JNull, card_b])) (Some file_null_b)
             (holding [])
           = show_alert ReadFailed (holding [])"
    by (rule import_nullish_fails [where C = "[JNull, card_b]"]) (simp_all add: reads_as_def)
  have p: "reads_as file_5_b (JArr [JNum 5, card_b]) file_5_b = Some (JArr [JNum 5, card_b])"
    by (simp add: reads_as_def)
  have fc: "cards (handleImportFile (reads_as file_5_b (JArr [JNum 5, card_b])) (Some file_5_b)
             (holding []))
           = [card_b]"
    using import_array_cards [of "reads_as file_5_b (JArr [JNum 5, card_b])" file_5_b
                                 "[JNum 5, card_b]" "holding []"] p
    by (simp add: H passes_samples sample_cards)
  have fa: "alerts (handleImportFile (reads_as file_5_b (JArr [JNum 5, card_b])) (Some file_5_b)
             (holding []))
           = [Imported 1]"
    using import_array_alerts [of "reads_as file_5_b (JArr [JNum 5, card_b])" file_5_b
                                  "[JNum 5, card_b]" "holding []"] p
    by (simp add: H passes_samples sample_cards)
  show ?thesis
    by (simp add: e n fc fa H show_alert_def)
qed

subsection \<open>Files that are not a JSON array\<close>

text \<open>
  C3. An import should fail with the report of a failed read whenever the text of the file
  is not a JSON array, whether it does not parse or parses to something else, and leave
  the history as it was. The history is indeed left alone, but a file that parses to a
  value that is no array is not reported: the \<^verbatim>\<open>if (Array.isArray(imported))\<close> has no
  \<^verbatim>\<open>else\<close>, so the file \<open>file_object\<close>, which holds one object, changes nothing and
  shows no alert. Every other outcome of the handler shows one: a truncated file the
  failed read, an empty array the message that no new card was found.
\<close>

theorem import_non_array_no_alert:
  "handleImportFile (reads_as file_object card_a) (Some file_object) (holding [card_b])
     = holding [card_b]
   \<and> alerts (holding [card_b]) = []
   \<and> handleImportFile (reads_as file_a (JArr [card_a])) (Some file_truncated) (holding [card_b])
     = (holding [card_b])\<lparr>alerts := [ReadFailed]\<rparr>
   \<and> handleImportFile (reads_as file_empty (JArr [])) (Some file_empty) (holding [card_b])
     = (holding [card_b])\<lparr>alerts := [NoNewCards]\<rparr>"
proof -
  have ob: "handleImportFile (reads_as file_object card_a) (Some file_object) (holding [card_b])
      = holding [card_b]"
    by (rule import_not_array [where v = card_a]) (simp_all add: reads_as_def card_a_def)
  have tr: "handleImportFile (reads_as file_a (JArr [card_a])) (Some file_truncated)
              (holding [card_b])
      = show_alert ReadFailed (holding [card_b])"
    by (rule import_unparsable) (simp add: reads_as_def file_a_def file_truncated_def)
  have em: "handleImportFile (reads_as file_empty (JArr [])) (Some file_empty) (holding [card_b])
      = show_alert NoNewCards (holding [card_b])"
    using import_array [of "reads_as file_empty (JArr [])" file_empty "[]" "holding [card_b]"]
    by (simp add: reads_as_def holding_def sample_cards)
  have A: "alerts (holding [card_b]) = []"
    by (simp add: holding_def initial_def)
  show ?thesis
    by (simp add: ob tr em show_alert_def A)
qed

subsection \<open>Export, then import into an empty history\<close>



subsection \<open>Importing the same file twice\<close>

text \<open>
  C5, as amended. When every candidate of the file has a primitive \<^verbatim>\<open>id\<close> (a string,
  number, boolean or \<^verbatim>\<open>null\<close>, or none at all), importing the file a second time leaves
  the history as the first import left it, and the second import reports no card read.
\<close>

theorem import_twice:
  assumes "\<forall>C. JSON_parse contents = Some (JArr C) \<longrightarrow> (\<forall>c\<in>set C. primitive (field c ''id''))"
  shows "cards (handleImportFile JSON_parse (Some contents)
                  (handleImportFile JSON_parse (Some contents) s))
           = cards (handleImportFile JSON_parse (Some contents) s)
       \<and> (\<forall>n. Imported n \<notin>
             set (drop (length (alerts (handleImportFile JSON_parse (Some contents) s)))
                    (alerts (handleImportFile JSON_parse (Some contents)
                               (handleImportFile JSON_parse (Some contents) s)))))"
proof -
  let ?s1 = "handleImportFile JSON_parse (Some contents) s"
  let ?s2 = "handleImportFile JSON_parse (Some contents) ?s1"
  consider (unparsable) "JSON_parse contents = None"
    | (other) v where "JSON_parse contents = Some v" "\<forall>C. v \<noteq> JArr C"
    | (threw) C where "JSON_parse contents = Some (JArr C)" "newCards_of (cards s) C = None"
    | (merged) C where "JSON_parse contents = Some (JArr C)" "newCards_of (cards s) C \<noteq> None"
  proof (cases "JSON_parse contents")
    case None
    then show ?thesis using unparsable by simp
  next
    case (Some v)
    show ?thesis
    proof (cases "\<exists>C. v = JArr C")
      case True
      then obtain C where "v = JArr C" by blast
      with Some show ?thesis using threw [of C] merged [of C] by blast
    next
      case False
      with Some show ?thesis using other [of v] by blast
    qed
  qed
  then show ?thesis
  proof cases
    case unparsable
    then show ?thesis
      by (simp add: import_unparsable show_alert_def)
  next
    case other
    then have "\<And>st. handleImportFile JSON_parse (Some contents) st = st"
      using import_not_array [of JSON_parse contents v] by simp
    then show ?thesis by simp
  next
    case threw
    then have "\<And>st. cards st = cards s \<Longrightarrow>
        handleImportFile JSON_parse (Some contents) st = show_alert ReadFailed st"
      by (simp add: handleImportFile_def handleImportFile_onload_def)
    then show ?thesis
      by (simp add: show_alert_def)
  next
    case merged
    then have nn: "\<forall>c\<in>set (cards s). \<not> nullish c" "\<forall>c\<in>set C. \<not> nullish c"
      by (auto simp: newCards_of_None_iff)
    let ?N = "filter (passes_filter (cards s)) C"
    have c1: "cards ?s1 = ?N @ cards s"
      using import_array_cards [of JSON_parse contents C s] merged(1) nn by simp
    have nn1: "\<forall>c\<in>set (cards ?s1). \<not> nullish c"
      using nn by (auto simp: c1)
    have prim: "\<forall>c\<in>set C. primitive (field c ''id'')"
      using assms merged(1) by blast
    have none: "filter (passes_filter (cards ?s1)) C = []"
      unfolding c1 filter_empty_conv using passes_after_merge [OF prim] by blast
    have "cards ?s2 = cards ?s1"
      using import_array_cards [of JSON_parse contents C ?s1] merged(1) nn1 nn(2)
      by (simp add: none)
    moreover have "alerts ?s2 = alerts ?s1 @ [NoNewCards]"
      using import_array_alerts [of JSON_parse contents C ?s1] merged(1) nn1 nn(2)
      by (simp add: none)
    ultimately show ?thesis by simp
  qed
qed

text \<open>An instance: the file \<open>file_a_b\<close>, twice, into a history holding \<open>card_a\<close>.\<close>

theorem import_twice_witness:
  "cards (handleImportFile (reads_as file_a_b (JArr [card_a, card_b])) (Some file_a_b)
            (holding [card_a]))
     = [card_b, card_a]
   \<and> cards (handleImportFile (reads_as file_a_b (JArr [card_a, card_b])) (Some file_a_b)
        (handleImportFile (reads_as file_a_b (JArr [card_a, card_b])) (Some file_a_b)
           (holding [card_a])))
     = [card_b, card_a]"
proof -
  let ?parse = "reads_as file_a_b (JArr [card_a, card_b])"
  have p: "?parse file_a_b = Some (JArr [card_a, card_b])"
    by (simp add: reads_as_def)
  have prim: "\<forall>C. ?parse file_a_b = Some (JArr C) \<longrightarrow> (\<forall>c\<in>set C. primitive (field c ''id''))"
    by (simp add: reads_as_def sample_cards)
  have H: "cards (holding [card_a]) = [card_a]"
    by (simp add: holding_def)
  have once: "cards (handleImportFile ?parse (Some file_a_b) (holding [card_a])) = [card_b, card_a]"
    using import_array_cards [of ?parse file_a_b "[card_a, card_b]" "holding [card_a]"] p
    by (simp add: H passes_samples sample_cards)
  show ?thesis
    using import_twice [of ?parse file_a_b "holding [card_a]", OF prim] once
    by simp
qed

text \<open>
  For every file the statement fails: an \<^verbatim>\<open>id\<close> that is an array is a new reference
  each time the file is parsed, is found in no set of existing ids, and its card is
  accepted again.
\<close>

theorem import_twice_reference_id:
  "\<not> (\<forall>(JSON_parse :: string \<Rightarrow> int jsval option) contents s.
        cards (handleImportFile JSON_parse (Some contents)
                 (handleImportFile JSON_parse (Some contents) s))
          = cards (handleImportFile JSON_parse (Some contents) s))"
proof
  assume claim: "\<forall>(JSON_parse :: string \<Rightarrow> int jsval option) contents s.
        cards (handleImportFile JSON_parse (Some contents)
                 (handleImportFile JSON_parse (Some contents) s))
          = cards (handleImportFile JSON_parse (Some contents) s)"
  let ?parse = "reads_as file_ref (JArr [card_ref])"
  have p: "?parse file_ref = Some (JArr [card_ref])"
    by (simp add: reads_as_def)
  have H: "cards (holding []) = []"
    by (simp add: holding_def)
  have once: "cards (handleImportFile ?parse (Some file_ref) (holding [])) = [card_ref]"
    using import_array_cards [of ?parse file_ref "[card_ref]" "holding []"] p
    by (simp add: H passes_samples sample_cards)
  have twice: "cards (handleImportFile ?parse (Some file_ref)
                 (handleImportFile ?parse (Some file_ref) (holding [])))
        = [card_ref, card_ref]"
    using import_array_cards [of ?parse file_ref "[card_ref]"
        "handleImportFile ?parse (Some file_ref) (holding [])"] p
    by (simp add: once passes_samples sample_cards)
  from claim have "cards (handleImportFile ?parse (Some file_ref)
                 (handleImportFile ?parse (Some file_ref) (holding [])))
        = cards (handleImportFile ?parse (Some file_ref) (holding []))"
    by blast
  with once twice have "[card_ref, card_ref] = [card_ref]" by (simp only:)
  then show False by simp
qed

subsection \<open>Persistence of the history\<close>

text \<open>
  C6, as amended. A handler that changes the history (a resolved analysis, a confirmed
  removal, an import that accepts a card) does not write to \<^verbatim>\<open>localStorage\<close> itself;
  once React has run the save effect that the change scheduled, the value stored under
  the history key is the serialization of the history in memory.
\<close>

theorem history_saved_by_effect:
  "(apiKey s \<noteq> [] \<and> generateCorpusEntry term (apiKey s) = Resolved entry \<longrightarrow>
      localStorage (handleAnalyze generateCorpusEntry uuid now term s) = localStorage s
      \<and> mirrors str (flush_effects str (handleAnalyze generateCorpusEntry uuid now term s)))
   \<and> (\<forall>s'. handleDelete True card_id s = Some s' \<longrightarrow>
         localStorage s' = localStorage s \<and> mirrors str (flush_effects str s'))
   \<and> localStorage (handleImportFile JSON_parse chosen s) = localStorage s
   \<and> (cards (handleImportFile JSON_parse chosen s) \<noteq> cards s \<longrightarrow>
         mirrors str (flush_effects str (handleImportFile JSON_parse chosen s)))"
proof -
  have a: "apiKey s \<noteq> [] \<and> generateCorpusEntry term (apiKey s) = Resolved entry \<longrightarrow>
      localStorage (handleAnalyze generateCorpusEntry uuid now term s) = localStorage s
      \<and> mirrors str (flush_effects str (handleAnalyze generateCorpusEntry uuid now term s))"
    by (simp add: handleAnalyze_resolved mirrors_flush)
  have d: "\<forall>s'. handleDelete True card_id s = Some s' \<longrightarrow>
         localStorage s' = localStorage s \<and> mirrors str (flush_effects str s')"
    by (auto simp: handleDelete_def setCards_def mirrors_flush split: option.splits)
  show ?thesis
    using a d localStorage_import import_same_or_pending mirrors_flush by blast
qed

text \<open>
  An instance: removing the only card of a history that is stored as \<open>file_a\<close>; after
  the effect the stored value is the serialization of the empty history.
\<close>

theorem history_saved_by_effect_witness:
  "handleDelete True ''a'' ((holding [card_a])\<lparr>localStorage := [STORAGE_KEY \<mapsto> file_a]\<rparr>)
     = Some ((holding [])\<lparr>localStorage := [STORAGE_KEY \<mapsto> file_a], save_pending := True\<rparr>)
   \<and> localStorage
        (flush_effects (writes_as (JArr [card_a]) file_a ''[]'')
           ((holding [])\<lparr>localStorage := [STORAGE_KEY \<mapsto> file_a], save_pending := True\<rparr>))
        STORAGE_KEY
     = Some ''[]''"
proof -
  let ?s = "(holding [card_a])\<lparr>localStorage := [STORAGE_KEY \<mapsto> file_a]\<rparr>"
  let ?s' = "(holding [])\<lparr>localStorage := [STORAGE_KEY \<mapsto> file_a], save_pending := True\<rparr>"
  let ?str = "writes_as (JArr [card_a]) file_a ''[]''"
  have del: "handleDelete True ''a'' ?s = Some ?s'"
    by (simp add: handleDelete_def remove_def setCards_def holding_def initial_def card_a_def)
  have "mirrors ?str (flush_effects ?str ?s')"
    using history_saved_by_effect [where s = ?s and card_id = "''a''" and str = ?str] del
    by blast
  then have "localStorage (flush_effects ?str ?s') STORAGE_KEY = Some ''[]''"
    by (simp add: mirrors_def flush_effects_def save_effect_def writes_as_def holding_def)
  with del show ?thesis by simp
qed

text \<open>
  That the write is complete when the handler returns does not hold: in the same
  instance, when \<^verbatim>\<open>handleDelete\<close> returns, the history to be rendered is empty and the
  stored value is still \<open>file_a\<close>.
\<close>

theorem delete_returns_before_save:
  "\<not> (\<forall>(str :: int jsval \<Rightarrow> string) s card_id s'.
        mirrors str s \<and> \<not> save_pending s \<and> handleDelete True card_id s = Some s'
        \<longrightarrow> mirrors str s')"
proof
  assume claim: "\<forall>(str :: int jsval \<Rightarrow> string) s card_id s'.
        mirrors str s \<and> \<not> save_pending s \<and> handleDelete True card_id s = Some s'
        \<longrightarrow> mirrors str s'"
  let ?str = "writes_as (JArr [card_a]) file_a ''[]''"
  let ?s = "(holding [card_a])\<lparr>localStorage := [STORAGE_KEY \<mapsto> file_a]\<rparr>"
  let ?s' = "(holding [])\<lparr>localStorage := [STORAGE_KEY \<mapsto> file_a], save_pending := True\<rparr>"
  have before: "mirrors ?str ?s \<and> \<not> save_pending ?s"
    by (simp add: mirrors_def writes_as_def holding_def initial_def)
  have del: "handleDelete True ''a'' ?s = Some ?s'"
    by (simp add: handleDelete_def remove_def setCards_def holding_def initial_def card_a_def)
  from claim before del have "mirrors ?str ?s'" by blast
  then show False
    by (simp add: mirrors_def writes_as_def holding_def initial_def file_a_def)
qed

subsection \<open>Analysis without a credential\<close>

text \<open>
  C7. For every term, when the credential is empty, \<^verbatim>\<open>handleAnalyze\<close> ends with the
  credential error shown (the settings dialog opened and the message that no API key is
  set), calls \<^verbatim>\<open>generateCorpusEntry\<close> not at all and leaves the history as it was: the
  state changes in those two cells only. This is so in particular after the credential has
  been removed with \<^verbatim>\<open>handleSaveApiKey('')\<close>, whatever it was before; removing it leaves
  the stored history alone as well.
\<close>

theorem analyze_without_credential:
  "(apiKey s = [] \<longrightarrow>
      handleAnalyze generateCorpusEntry uuid now term s
        = s\<lparr>isSettingsOpen := True, error := Some ApiKeyNotSet\<rparr>)
   \<and> (let s' = handleAnalyze generateCorpusEntry uuid now term (handleSaveApiKey [] s)
      in error s' = Some ApiKeyNotSet \<and> requests s' = requests s \<and> cards s' = cards s
         \<and> save_pending s' = save_pending s
         \<and> localStorage s' STORAGE_KEY = localStorage s STORAGE_KEY)"
  by (simp add: handleAnalyze_def handleSaveApiKey_def Let_def STORAGE_KEY_def
      API_KEY_STORAGE_KEY_def)

text \<open>
  An instance: a session without a key that holds one card. The service would resolve, but
  it is never asked.
\<close>

theorem analyze_without_credential_witness:
  "handleAnalyze (\<lambda>t k. Resolved [(''term'', JStr t), (''meaning'', JStr ''bribe'')]) ''u1'' 7
     ''huilu'' (holding [card_b])
   = (holding [card_b])\<lparr>isSettingsOpen := True, error := Some ApiKeyNotSet\<rparr>
   \<and> requests (handleAnalyze (\<lambda>t k. Resolved [(''term'', JStr t), (''meaning'', JStr ''bribe'')])
        ''u1'' 7 ''huilu'' (holding [card_b])) = []"
proof -
  have "apiKey (holding [card_b]) = []"
    by (simp add: holding_def initial_def init_apiKey_def)
  then show ?thesis
    using analyze_without_credential
      [of "holding [card_b]" "\<lambda>t k. Resolved [(''term'', JStr t), (''meaning'', JStr ''bribe'')]"
          "''u1''" 7 "''huilu''"]
    by (simp add: holding_def initial_def)
qed

subsection \<open>Loading a malformed stored history\<close>

text \<open>
  C8, as amended. When the value stored under the history key is present, is not the empty
  string and does not parse, the load effect logs the failure and leaves the history
  empty, and the mount completes with that empty history. A stored empty string is skipped
  like an absent value: the history stays empty and nothing is logged.
\<close>

theorem load_malformed:
  "(ls STORAGE_KEY = Some saved \<and> saved \<noteq> [] \<and> JSON_parse saved = None \<longrightarrow>
      load_effect JSON_parse (initial ls env_API_KEY)
        = Inr ((initial ls env_API_KEY)\<lparr>console := [FailedToParseHistory]\<rparr>)
      \<and> (\<exists>s. mount JSON_parse str ls env_API_KEY = Inr s
               \<and> cards s = [] \<and> console s = [FailedToParseHistory]))
   \<and> (ls STORAGE_KEY = Some [] \<longrightarrow>
        load_effect JSON_parse (initial ls env_API_KEY) = Inr (initial ls env_API_KEY))"
  by (simp add: load_effect_def mount_def initial_def flush_effects_def Let_def)

text \<open>An instance: a truncated stored value, and an empty one.\<close>

theorem load_malformed_witness:
  "load_effect (reads_as file_a (JArr [card_a]))
     (initial [STORAGE_KEY \<mapsto> file_truncated] None)
     = Inr ((initial [STORAGE_KEY \<mapsto> file_truncated] None)\<lparr>console := [FailedToParseHistory]\<rparr>)
   \<and> load_effect (reads_as file_a (JArr [card_a])) (initial [STORAGE_KEY \<mapsto> []] None)
     = Inr (initial [STORAGE_KEY \<mapsto> []] None)"
proof -
  have "file_truncated \<noteq> [] \<and> reads_as file_a (JArr [card_a]) file_truncated = None"
    by (simp add: reads_as_def file_a_def file_truncated_def)
  then show ?thesis
    using load_malformed [where ls = "[STORAGE_KEY \<mapsto> file_truncated]"
              and saved = file_truncated and JSON_parse = "reads_as file_a (JArr [card_a])"
              and env_API_KEY = None]
          load_malformed [where ls = "[STORAGE_KEY \<mapsto> []]" and saved = "[]"
              and JSON_parse = "reads_as file_a (JArr [card_a])" and env_API_KEY = None]
    by simp
qed

text \<open>
  That every malformed stored value is logged does not hold: the empty string is no JSON
  text, and \<^verbatim>\<open>if (saved)\<close> skips it before \<^verbatim>\<open>JSON.parse\<close> is called.
\<close>

theorem load_empty_string_not_logged:
  "\<not> (\<forall>(JSON_parse :: string \<Rightarrow> int jsval option) ls env_API_KEY saved.
        ls STORAGE_KEY = Some saved \<and> JSON_parse saved = None \<longrightarrow>
        (\<exists>s. load_effect JSON_parse (initial ls env_API_KEY) = Inr s
              \<and> cards s = [] \<and> FailedToParseHistory \<in> set (console s)))"
proof
  assume claim: "\<forall>(JSON_parse :: string \<Rightarrow> int jsval option) ls env_API_KEY saved.
        ls STORAGE_KEY = Some saved \<and> JSON_parse saved = None \<longrightarrow>
        (\<exists>s. load_effect JSON_parse (initial ls env_API_KEY) = Inr s
              \<and> cards s = [] \<and> FailedToParseHistory \<in> set (console s))"
  let ?parse = "reads_as file_a (JArr [card_a])"
  let ?ls = "[STORAGE_KEY \<mapsto> []] :: string \<rightharpoonup> string"
  have "?ls STORAGE_KEY = Some [] \<and> ?parse [] = None"
    by (simp add: reads_as_def file_a_def)
  with claim obtain s where "load_effect ?parse (initial ?ls None) = Inr s"
    and "FailedToParseHistory \<in> set (console s)"
    by blast
  then show False
    by (auto simp: load_effect_def initial_def)
qed

subsection \<open>Removing a card\<close>

text \<open>
  C9. For every history (of cards, so with no \<^verbatim>\<open>null\<close> or \<^verbatim>\<open>undefined\<close> element) and
  every id, the removal does not fail; it keeps exactly the cards whose \<^verbatim>\<open>id\<close> is not
  the given string, in their original order; and when no card has that id it gives the
  history back unchanged. \<^verbatim>\<open>handleDelete\<close>, once confirmed, stores that result.
\<close>

theorem remove_by_id:
  assumes "\<forall>c\<in>set (cards s). \<not> nullish c"
  shows "remove card_id (cards s) = Some (filter (\<lambda>c. field c ''id'' \<noteq> JStr card_id) (cards s))
       \<and> ((\<forall>c\<in>set (cards s). field c ''id'' \<noteq> JStr card_id)
            \<longrightarrow> remove card_id (cards s) = Some (cards s))
       \<and> handleDelete True card_id s
           = Some (setCards (\<lambda>prev. filter (\<lambda>c. field c ''id'' \<noteq> JStr card_id) (cards s)) s)"
proof -
  have r: "remove card_id (cards s)
      = Some (filter (\<lambda>c. field c ''id'' \<noteq> JStr card_id) (cards s))"
    using assms by (rule remove_total)
  moreover have "(\<forall>c\<in>set (cards s). field c ''id'' \<noteq> JStr card_id)
      \<longrightarrow> remove card_id (cards s) = Some (cards s)"
    by (simp add: r)
  moreover have "handleDelete True card_id s
      = Some (setCards (\<lambda>prev. filter (\<lambda>c. field c ''id'' \<noteq> JStr card_id) (cards s)) s)"
    by (simp add: handleDelete_def r)
  ultimately show ?thesis by blast
qed

text \<open>An instance: removing \<open>a\<close>, and removing an id no card has.\<close>

theorem remove_by_id_witness:
  "remove ''a'' (cards (holding [card_a, card_b])) = Some [card_b]
   \<and> remove ''z'' (cards (holding [card_a, card_b])) = Some [card_a, card_b]
   \<and> handleDelete True ''a'' (holding [card_a, card_b])
       = Some ((holding [card_a, card_b])\<lparr>cards := [card_b], save_pending := True\<rparr>)"
proof -
  have nn: "\<forall>c\<in>set (cards (holding [card_a, card_b])). \<not> nullish c"
    by (simp add: holding_def card_a_def card_b_def)
  have ids: "field card_a ''id'' = JStr ''a''" "field card_b ''id'' = JStr ''b''"
    by (simp_all add: field_def card_a_def card_b_def)
  have H: "cards (holding [card_a, card_b]) = [card_a, card_b]"
    by (simp add: holding_def)
  show ?thesis
    using remove_by_id [OF nn, of "''a''"] remove_by_id [OF nn, of "''z''"]
    by (simp add: H ids setCards_def)
qed

subsection \<open>The credential at the start of a session\<close>

text \<open>
  C10. When nothing is stored under the credential key, the credential in memory starts as
  the environment variable \<^verbatim>\<open>API_KEY\<close> when that is set and as the empty string
  otherwise. So with a non-empty variable the first analysis of a session in which no
  credential was ever saved goes out with that key and, when the service resolves, adds its
  card.
\<close>

theorem env_key_fallback:
  assumes "ls API_KEY_STORAGE_KEY = None"
  shows "apiKey (initial ls env_API_KEY :: 'n app)
           = (case env_API_KEY of None \<Rightarrow> [] | Some e \<Rightarrow> e)
   \<and> (\<forall>k entry. env_API_KEY = Some k \<and> k \<noteq> []
          \<and> generateCorpusEntry term k = Resolved entry \<longrightarrow>
        (let s' = handleAnalyze generateCorpusEntry uuid now term (initial ls env_API_KEY :: 'n app)
         in cards s' = [newCard entry uuid now] \<and> requests s' = [(term, k)]
            \<and> error s' = None))"
  using assms
  by (auto simp: initial_def init_apiKey_def handleAnalyze_def setCards_def prepend_def Let_def
      split: option.splits)

text \<open>An instance: nothing stored, the variable set to \<open>k1\<close> or unset.\<close>

theorem env_key_fallback_witness:
  "apiKey (initial Map.empty (Some ''k1'') :: int app) = ''k1''
   \<and> apiKey (initial Map.empty None :: int app) = []
   \<and> cards (handleAnalyze (\<lambda>t k. Resolved [(''term'', JStr t), (''meaning'', JStr ''bribe'')])
        ''u1'' 7 ''huilu'' (initial Map.empty (Some ''k1'') :: int app))
       = [JObj [(''term'', JStr ''huilu''), (''meaning'', JStr ''bribe''), (''id'', JStr ''u1''),
                (''createdAt'', JNum 7)]]"
proof -
  have absent: "(Map.empty :: string \<rightharpoonup> string) API_KEY_STORAGE_KEY = None"
    by simp
  show ?thesis
    using env_key_fallback [OF absent, of "Some ''k1''"
        "\<lambda>t k. Resolved [(''term'', JStr t), (''meaning'', JStr ''bribe'')]" "''huilu''" "''u1''" "7::int"]
      env_key_fallback [OF absent, of None
        "\<lambda>t k. Resolved [(''term'', JStr t), (''meaning'', JStr ''bribe'')]" "''huilu''" "''u1''" "7::int"]
    by (simp add: newCard_def Let_def)
qed

end
